theory Spec2Isabelle
  imports Complex_Main
begin

section \<open>JavaScript values\<close>

text \<open>
  The values that \<^verbatim>\<open>lib/strategy.js\<close> handles: option values given by the host, the
  documents that \<^verbatim>\<open>JSON.parse\<close> returns, and the objects the strategy builds.
  A number is an IEEE double: \<open>Finite r\<close> is the double whose value is \<open>r\<close> (both zeros
  are \<open>Finite 0\<close>; nothing here tells them apart), \<open>Infinity False\<close> and
  \<open>Infinity True\<close> are the positive and the negative infinity. An object is the list of
  its own properties in the order in which JavaScript enumerates them. Strings are lists
  of 8-bit characters, the code units below 256; a string with a higher code unit is not
  a value of this theory.
\<close>

datatype number = NaN | Infinity bool | Finite rat

datatype js =
    JUndefined
  | JNull
  | JBool bool
  | JNumber number
  | JString string
  | JArray "js list"
  | JObject "(string \<times> js) list"

type_synonym object = "(string \<times> js) list"

text \<open>
  ToBoolean, as an \<^verbatim>\<open>if\<close>, \<^verbatim>\<open>&&\<close> and \<^verbatim>\<open>||\<close> apply it: \<^verbatim>\<open>undefined\<close>,
  \<^verbatim>\<open>null\<close>, \<^verbatim>\<open>false\<close>, zero, \<^verbatim>\<open>NaN\<close> and the empty string are falsy.
\<close>

fun truthy :: "js \<Rightarrow> bool" where
  "truthy JUndefined = False"
| "truthy JNull = False"
| "truthy (JBool b) = b"
| "truthy (JNumber n) = (n \<noteq> NaN \<and> n \<noteq> Finite 0)"
| "truthy (JString s) = (s \<noteq> [])"
| "truthy (JArray xs) = True"
| "truthy (JObject kvs) = True"

text \<open>
  Reading \<^verbatim>\<open>o.k\<close> on an object: the own property, \<^verbatim>\<open>undefined\<close> when there is none.
  None of the names the strategy reads (\<^verbatim>\<open>error\<close>, \<^verbatim>\<open>message\<close>, \<^verbatim>\<open>code\<close>,
  \<^verbatim>\<open>error_description\<close> and the eight option names) is inherited from a built-in
  prototype, so on a primitive or an array the read gives \<^verbatim>\<open>undefined\<close> as well.
  The strategy reads a property of a value only after testing that value truthy, so the
  receiver is never \<^verbatim>\<open>null\<close> or \<^verbatim>\<open>undefined\<close>.
\<close>

definition get :: "object \<Rightarrow> string \<Rightarrow> js" where
  "get obj k = (case map_of obj k of None \<Rightarrow> JUndefined | Some v \<Rightarrow> v)"

fun getprop :: "js \<Rightarrow> string \<Rightarrow> js" where
  "getprop (JObject kvs) k = get kvs k"
| "getprop v k = JUndefined"

text \<open>
  Writing \<^verbatim>\<open>o[k] = v\<close> for a key that is not an array index, as are all the keys that the
  strategy writes: an existing property keeps its place and takes the new value, a new
  one is added last.
\<close>

fun put :: "object \<Rightarrow> string \<Rightarrow> js \<Rightarrow> object" where
  "put [] k v = [(k, v)]"
| "put ((k', v') # kvs) k v = (if k' = k then (k, v) # kvs else (k', v') # put kvs k v)"

section \<open>Strategy construction\<close>

text \<open>
  \<^verbatim>\<open>String.prototype.indexOf\<close>: the index of the first occurrence of the pattern, \<open>-1\<close>
  when there is none.
\<close>

fun indexOf_from :: "int \<Rightarrow> string \<Rightarrow> string \<Rightarrow> int" where
  "indexOf_from i [] p = (if p = [] then i else - 1)"
| "indexOf_from i (c # cs) p =
     (if take (length p) (c # cs) = p then i else indexOf_from (i + 1) cs p)"

definition indexOf :: "string \<Rightarrow> string \<Rightarrow> int" where
  "indexOf s p = indexOf_from 0 s p"

text \<open>
  Lines 55 to 59 of the constructor, on the \<^verbatim>\<open>pathname\<close> of the parsed profile URL.
\<close>

definition userProfileFormat_of :: "string \<Rightarrow> string" where
  "userProfileFormat_of pathname =
     (if indexOf pathname ''/userinfo'' = int (length pathname) - int (length ''/userinfo'')
      then ''openid'' else ''molch'')"

text \<open>What the sentence "the path ends with the suffix" means.\<close>

definition ends_with :: "string \<Rightarrow> string \<Rightarrow> bool" where
  "ends_with s p = (length p \<le> length s \<and> drop (length s - length p) s = p)"

datatype exn = ReferenceError string | TypeError string | SyntaxError string

record options =
  authorizationURL :: "string option"
  tokenURL :: "string option"
  userProfileURL :: "string option"

text \<open>
  The strategy that the constructor builds: the two endpoints that lines 47 and 48 leave
  in \<^verbatim>\<open>options\<close> for the base constructor, and the fields \<^verbatim>\<open>name\<close>,
  \<^verbatim>\<open>_userProfileURL\<close> and \<^verbatim>\<open>_userProfileFormat\<close> that the module sets itself.
\<close>

record strategy =
  base_authorizationURL :: string
  base_tokenURL :: string
  this_name :: string
  this_userProfileURL :: string
  this_userProfileFormat :: string

text \<open>
  \<^verbatim>\<open>a || b\<close> on an optional string: an absent or empty \<^verbatim>\<open>a\<close> gives \<^verbatim>\<open>b\<close>.
\<close>

definition or_default :: "string option \<Rightarrow> string \<Rightarrow> string" where
  "or_default a b = (case a of None \<Rightarrow> b | Some s \<Rightarrow> if s = [] then b else s)"

text \<open>
  The constructor (lines 45 to 60). \<open>uri_parse\<close> is the \<^verbatim>\<open>pathname\<close> that Node's
  \<^verbatim>\<open>url.parse\<close> gives for a URL; it is \<^verbatim>\<open>null\<close> (here \<open>None\<close>) for a URL with no path,
  and reading \<^verbatim>\<open>url.pathname.indexOf\<close> then throws a TypeError. The call of the base
  constructor \<^verbatim>\<open>OAuth2Strategy.call(this, options, verify)\<close> belongs to the external
  library and is taken to return.
\<close>

definition Strategy :: "(string \<Rightarrow> string option) \<Rightarrow> options \<Rightarrow> exn + strategy" where
  "Strategy uri_parse opts =
     (let authorizationURL =
            or_default (authorizationURL opts) ''https://auth.molch.at/oauth2/authorize'';
          tokenURL = or_default (tokenURL opts) ''https://auth.molch.at/oauth2/token/index.pl'';
          url = or_default (userProfileURL opts) ''https://auth.molch.at/oauth2/userinfo/index.pl''
      in case uri_parse url of
           None \<Rightarrow> Inl (TypeError ''Cannot read property indexOf of null'')
         | Some pathname \<Rightarrow>
             Inr \<lparr>base_authorizationURL = authorizationURL, base_tokenURL = tokenURL,
                  this_name = ''molch'', this_userProfileURL = url,
                  this_userProfileFormat = userProfileFormat_of pathname\<rparr>)"

text \<open>
  The strategy built from options that give only a profile URL, with the format that
  the constructor chose for it.
\<close>

definition molch_strategy :: "string \<Rightarrow> string \<Rightarrow> strategy" where
  "molch_strategy url format =
     \<lparr>base_authorizationURL = ''https://auth.molch.at/oauth2/authorize'',
      base_tokenURL = ''https://auth.molch.at/oauth2/token/index.pl'',
      this_name = ''molch'', this_userProfileURL = url, this_userProfileFormat = format\<rparr>"

section \<open>Errors and the global scope\<close>

text \<open>
  The error with which the OAuth2 client answers a failed GET: the status and response
  body of an HTTP error (\<^verbatim>\<open>{statusCode, data}\<close>), or a connection error, which carries
  neither.
\<close>

record transport_error =
  statusCode :: "nat option"
  data :: "string option"

text \<open>
  Modelled from the spec: the constructor of \<^verbatim>\<open>lib/errors/userinfoerror.js\<close>, which line 7
  requires and which is not among the sources. The spec gives it as
  \<^verbatim>\<open>UserInfoError(description, errorCode)\<close>, built from \<^verbatim>\<open>error_description\<close> and
  \<^verbatim>\<open>error\<close>.
\<close>

datatype userinfoerror = UserInfoError (description: js) (errorCode: js)

text \<open>
  The error values handed to the completion callback. \<open>MolchAPIError message code\<close> is
  the object of lines 186 to 192, whose \<^verbatim>\<open>name\<close> is the constant \<^verbatim>\<open>'MolchAPIError'\<close>;
  \<open>InternalOAuthError message oauthError\<close> is the error of the external OAuth2 library
  that wraps the transport error; \<open>Error message\<close> is the built-in.
\<close>

datatype error =
    MolchAPIError js js
  | UserInfo userinfoerror
  | InternalOAuthError string transport_error
  | Error string

text \<open>
  The identifiers that the module uses and does not declare are looked up on the global
  object when the code runs. \<^verbatim>\<open>JSON.parse\<close> is the built-in: it returns the parsed
  document or throws. \<^verbatim>\<open>MolchPlusAPIError\<close>, \<^verbatim>\<open>OpenIDProfile\<close> and
  \<^verbatim>\<open>MolchPlusProfile\<close> are declared by no \<^verbatim>\<open>var\<close>, \<^verbatim>\<open>function\<close> or \<^verbatim>\<open>require\<close>
  of the module (lines 2 to 7 declare \<^verbatim>\<open>OAuth2Strategy\<close>, \<^verbatim>\<open>util\<close>, \<^verbatim>\<open>uri\<close>,
  \<^verbatim>\<open>InternalOAuthError\<close>, \<^verbatim>\<open>MolchAPIError\<close> and \<^verbatim>\<open>UserInfoError\<close>), so each is
  what the global object holds under that name: a constructor of two arguments, the
  \<^verbatim>\<open>parse\<close> method of a profile parser, or nothing (\<open>None\<close>).
\<close>

record globals =
  JSON_parse :: "string \<Rightarrow> exn + js"
  MolchPlusAPIError :: "(js \<Rightarrow> js \<Rightarrow> error) option"
  OpenIDProfile :: "(js \<Rightarrow> exn + object) option"
  MolchPlusProfile :: "(js \<Rightarrow> exn + object) option"

text \<open>Evaluating an identifier: one that nothing defines throws a ReferenceError.\<close>

definition resolve :: "string \<Rightarrow> 'a option \<Rightarrow> exn + 'a" where
  "resolve x b = (case b of None \<Rightarrow> Inl (ReferenceError (x @ '' is not defined'')) | Some v \<Rightarrow> Inr v)"

definition call_parse :: "string \<Rightarrow> (js \<Rightarrow> exn + object) option \<Rightarrow> js \<Rightarrow> exn + object" where
  "call_parse x b json = (case resolve x b of Inl e \<Rightarrow> Inl e | Inr parse \<Rightarrow> parse json)"

section \<open>Profile fetch\<close>

text \<open>
  What the callback of \<^verbatim>\<open>this._oauth2.get\<close> does with the answer \<^verbatim>\<open>(err, body)\<close> of
  the GET: it calls \<^verbatim>\<open>done\<close> with an error, calls \<^verbatim>\<open>done\<close> with a profile, or throws.
\<close>

datatype outcome = Done_err error | Done_ok object | Thrown exn

text \<open>
  Lines 85 to 90: \<^verbatim>\<open>json\<close> stays \<^verbatim>\<open>undefined\<close> when \<^verbatim>\<open>err.data\<close> is absent or empty,
  and when \<^verbatim>\<open>JSON.parse\<close> throws (the \<^verbatim>\<open>catch\<close> is empty).
\<close>

definition error_json :: "globals \<Rightarrow> transport_error \<Rightarrow> js" where
  "error_json g err =
     (case data err of
        None \<Rightarrow> JUndefined
      | Some d \<Rightarrow>
          if d = [] then JUndefined
          else (case JSON_parse g d of Inl ex \<Rightarrow> JUndefined | Inr json \<Rightarrow> json))"

text \<open>
  The tests of lines 92 and 94: \<^verbatim>\<open>json && json.error && json.error.message\<close> and
  \<^verbatim>\<open>json && json.error && json.error_description\<close>.
\<close>

definition api_error_shape :: "js \<Rightarrow> bool" where
  "api_error_shape json =
     (truthy json \<and> truthy (getprop json ''error'')
        \<and> truthy (getprop (getprop json ''error'') ''message''))"

definition oauth_error_shape :: "js \<Rightarrow> bool" where
  "oauth_error_shape json =
     (truthy json \<and> truthy (getprop json ''error'')
        \<and> truthy (getprop json ''error_description''))"

text \<open>Lines 92 to 97.\<close>

definition fetch_failed :: "globals \<Rightarrow> transport_error \<Rightarrow> outcome" where
  "fetch_failed g err =
     (let json = error_json g err in
      if api_error_shape json
      then (case resolve ''MolchPlusAPIError'' (MolchPlusAPIError g) of
              Inl ex \<Rightarrow> Thrown ex
            | Inr new \<Rightarrow>
                Done_err (new (getprop (getprop json ''error'') ''message'')
                              (getprop (getprop json ''error'') ''code'')))
      else if oauth_error_shape json
      then Done_err (UserInfo (UserInfoError (getprop json ''error_description'')
                                             (getprop json ''error'')))
      else Done_err (InternalOAuthError ''Failed to fetch user profile'' err))"

text \<open>Lines 106 to 114: the \<^verbatim>\<open>switch\<close> on the profile format.\<close>

definition parse_profile :: "globals \<Rightarrow> string \<Rightarrow> js \<Rightarrow> exn + object" where
  "parse_profile g format json =
     (if format = ''openid'' then call_parse ''OpenIDProfile'' (OpenIDProfile g) json
      else call_parse ''MolchPlusProfile'' (MolchPlusProfile g) json)"

text \<open>
  Lines 116 to 120, after the call of the parser: a parser that threw ends the callback
  with its exception; otherwise the three fields are set and \<^verbatim>\<open>done\<close> gets the profile.
\<close>

definition deliver :: "string \<Rightarrow> js \<Rightarrow> exn + object \<Rightarrow> outcome" where
  "deliver body json parsed =
     (case parsed of
        Inl ex \<Rightarrow> Thrown ex
      | Inr profile \<Rightarrow>
          (let profile = put profile ''provider'' (JString ''molch'');
               profile = put profile ''_raw'' (JString body);
               profile = put profile ''_json'' json
           in Done_ok profile))"

text \<open>Lines 100 to 120.\<close>

definition fetch_succeeded :: "globals \<Rightarrow> strategy \<Rightarrow> string \<Rightarrow> outcome" where
  "fetch_succeeded g self body =
     (case JSON_parse g body of
        Inl ex \<Rightarrow> Done_err (Error ''Failed to parse user profile'')
      | Inr json \<Rightarrow> deliver body json (parse_profile g (this_userProfileFormat self) json))"

text \<open>
  \<^verbatim>\<open>Strategy.prototype.userProfile\<close>, given the answer \<^verbatim>\<open>(err, body)\<close> of the GET. It
  assigns to no field of the strategy, which is returned as it was.
\<close>

definition userProfile ::
  "globals \<Rightarrow> strategy \<Rightarrow> transport_error option \<Rightarrow> string \<Rightarrow> outcome \<times> strategy" where
  "userProfile g self err body =
     (case err of
        Some e \<Rightarrow> (fetch_failed g e, self)
      | None \<Rightarrow> (fetch_succeeded g self body, self))"

section \<open>Authorization parameters\<close>

text \<open>\<^verbatim>\<open>Strategy.prototype.authorizationParams\<close> (lines 132 to 171).\<close>

definition authorizationParams :: "object \<Rightarrow> object" where
  "authorizationParams opts =
     (let params = [];
          params = (if truthy (get opts ''accessType'')
                    then put params ''access_type'' (get opts ''accessType'') else params);
          params = (if truthy (get opts ''prompt'')
                    then put params ''prompt'' (get opts ''prompt'') else params);
          params = (if truthy (get opts ''loginHint'')
                    then put params ''login_hint'' (get opts ''loginHint'') else params);
          params = (if truthy (get opts ''includeGrantedScopes'')
                    then put params ''include_granted_scopes'' (JBool True) else params);
          params = (if truthy (get opts ''display'')
                    then put params ''display'' (get opts ''display'') else params);
          params = (if truthy (get opts ''openIDRealm'')
                    then put params ''openid.realm'' (get opts ''openIDRealm'') else params);
          params = (if truthy (get opts ''approvalPrompt'')
                    then put params ''approval_prompt'' (get opts ''approvalPrompt'') else params);
          params = (if truthy (get opts ''userID'')
                    then put params ''user_id'' (get opts ''userID'') else params)
      in params)"

text \<open>
  The recognized options with the parameter each one sets, as the specification lists
  them.
\<close>

definition recognized :: "(string \<times> string) list" where
  "recognized =
     [(''accessType'', ''access_type''), (''prompt'', ''prompt''),
      (''loginHint'', ''login_hint''), (''includeGrantedScopes'', ''include_granted_scopes''),
      (''display'', ''display''), (''openIDRealm'', ''openid.realm''),
      (''approvalPrompt'', ''approval_prompt''), (''userID'', ''user_id'')]"

text \<open>An options object without the option \<open>opt\<close>.\<close>

definition without :: "string \<Rightarrow> object \<Rightarrow> object" where
  "without opt opts = filter (\<lambda>kv. fst kv \<noteq> opt) opts"

section \<open>A reader for JSON texts\<close>

text \<open>Tokens of a JSON text.\<close>

datatype token =
    LBrace | RBrace | LBracket | RBracket | Colon | Comma
  | TString string | TNumber rat | TTrue | TFalse | TNull

text \<open>The four white-space characters of JSON: space, tab, line feed, carriage return.\<close>

definition is_ws :: "char \<Rightarrow> bool" where
  "is_ws c = (c = CHR 0x20 \<or> c = CHR 0x09 \<or> c = CHR 0x0A \<or> c = CHR 0x0D)"

definition is_digit :: "char \<Rightarrow> bool" where
  "is_digit c = (c \<in> set ''0123456789'')"

definition is_numchar :: "char \<Rightarrow> bool" where
  "is_numchar c = (c \<in> set ''0123456789+-.eE'')"

definition digits_value :: "string \<Rightarrow> int" where
  "digits_value ds = foldl (\<lambda>n c. 10 * n + (of_char c - 48)) 0 ds"

text \<open>The value of the four hexadecimal digits of a \<^verbatim>\<open>\u\<close> escape.\<close>

definition hex_digit :: "char \<Rightarrow> nat option" where
  "hex_digit c =
     (let n = (of_char c :: nat) in
      if 48 \<le> n \<and> n \<le> 57 then Some (n - 48)
      else if 65 \<le> n \<and> n \<le> 70 then Some (n - 55)
      else if 97 \<le> n \<and> n \<le> 102 then Some (n - 87)
      else None)"

fun hex_value :: "nat \<Rightarrow> string \<Rightarrow> nat option" where
  "hex_value n [] = Some n"
| "hex_value n (c # cs) =
     (case hex_digit c of None \<Rightarrow> None | Some d \<Rightarrow> hex_value (16 * n + d) cs)"

text \<open>
  The single-character escapes: quotation mark, reverse solidus and solidus stand for
  themselves, \<^verbatim>\<open>b f n r t\<close> for the control characters.
\<close>

definition escape :: "char \<Rightarrow> char option" where
  "escape e =
     (if e = CHR 0x22 \<or> e = CHR 0x5C \<or> e = CHR ''/'' then Some e
      else if e = CHR ''b'' then Some (CHR 0x08)
      else if e = CHR ''f'' then Some (CHR 0x0C)
      else if e = CHR ''n'' then Some (CHR 0x0A)
      else if e = CHR ''r'' then Some (CHR 0x0D)
      else if e = CHR ''t'' then Some (CHR 0x09)
      else None)"

text \<open>
  A number literal: an optional minus sign, an integer part with no leading zero, an
  optional fraction and an optional exponent. \<open>number_value\<close> is the exact decimal value
  of the literal, \<open>None\<close> when the characters are not a number.
\<close>

definition scale :: "int \<Rightarrow> int \<Rightarrow> rat" where
  "scale m e = (if 0 \<le> e then of_int m * 10 ^ nat e else of_int m / 10 ^ nat (- e))"

definition exponent_value :: "string \<Rightarrow> int option" where
  "exponent_value cs =
     (if cs = [] then Some 0
      else if hd cs = CHR ''e'' \<or> hd cs = CHR ''E'' then
        (let ds = tl cs;
             neg = (ds \<noteq> [] \<and> hd ds = CHR ''-'');
             ds = (if ds \<noteq> [] \<and> (hd ds = CHR ''-'' \<or> hd ds = CHR ''+'') then tl ds else ds)
         in if ds \<noteq> [] \<and> list_all is_digit ds
            then Some (if neg then - digits_value ds else digits_value ds)
            else None)
      else None)"

definition number_value :: "string \<Rightarrow> rat option" where
  "number_value cs =
     (let neg = (cs \<noteq> [] \<and> hd cs = CHR ''-'');
          cs = (if neg then tl cs else cs);
          ip = takeWhile is_digit cs;
          cs = dropWhile is_digit cs;
          dot = (cs \<noteq> [] \<and> hd cs = CHR ''.'');
          fp = (if dot then takeWhile is_digit (tl cs) else []);
          cs = (if dot then dropWhile is_digit (tl cs) else cs)
      in if ip = [] \<or> (1 < length ip \<and> hd ip = CHR ''0'') \<or> (dot \<and> fp = []) then None
         else case exponent_value cs of
                None \<Rightarrow> None
              | Some e \<Rightarrow>
                  let r = scale (digits_value (ip @ fp)) (e - int (length fp))
                  in Some (if neg then - r else r))"

text \<open>
  The double nearest to a decimal value, with ties going to the even mantissa, as
  \<^verbatim>\<open>JSON.parse\<close> reads a number literal. \<open>binary_exponent a\<close> is the integer \<open>e\<close> with
  \<open>2 ^ e \<le> a < 2 ^ (e + 1)\<close>; a double has a mantissa of 53 bits above the smallest
  exponent \<open>-1074\<close>, so the value is rounded to a multiple of \<open>2 ^ q\<close>. A value that
  rounds to \<open>2 ^ 1024\<close> is an infinity.
\<close>

function log2_floor :: "int \<Rightarrow> int" where
  "log2_floor n = (if n < 2 then 0 else 1 + log2_floor (n div 2))"
  by pat_completeness auto
termination
  by (relation "measure nat") auto

definition pow2 :: "int \<Rightarrow> rat" where
  "pow2 e = (if 0 \<le> e then 2 ^ nat e else 1 / 2 ^ nat (- e))"

definition binary_exponent :: "rat \<Rightarrow> int" where
  "binary_exponent a =
     (let e = log2_floor (fst (quotient_of a)) - log2_floor (snd (quotient_of a))
      in if pow2 e \<le> a then e else e - 1)"

definition round_half_even :: "rat \<Rightarrow> int" where
  "round_half_even x =
     (let f = \<lfloor>x\<rfloor>; d = x - of_int f
      in if d < 1 / 2 then f else if 1 / 2 < d then f + 1 else if even f then f else f + 1)"

definition number_of_decimal :: "rat \<Rightarrow> number" where
  "number_of_decimal r =
     (if r = 0 then Finite 0
      else let a = \<bar>r\<bar>;
               q = max (binary_exponent a - 52) (- 1074);
               v = of_int (round_half_even (a / pow2 q)) * pow2 q
           in if 2 ^ 1024 \<le> v then Infinity (r < 0)
              else Finite (if r < 0 then - v else v))"

text \<open>
  The members of an object that \<^verbatim>\<open>JSON.parse\<close> builds. A key that is an array index (the
  decimal numeral, with no leading zero, of an integer below \<open>2 ^ 32 - 1\<close>) is
  enumerated before every other key, the array indices in ascending order; the other
  keys keep the order of the text. A member whose key is already present replaces the
  value of the earlier one.
\<close>

definition array_index :: "string \<Rightarrow> int option" where
  "array_index k =
     (if k \<noteq> [] \<and> list_all is_digit k \<and> (if hd k = CHR ''0'' then k = ''0'' else True)
         \<and> digits_value k < 4294967295
      then Some (digits_value k) else None)"

fun insert_index :: "int \<Rightarrow> string \<Rightarrow> js \<Rightarrow> object \<Rightarrow> object" where
  "insert_index n k v [] = [(k, v)]"
| "insert_index n k v ((k', v') # kvs) =
     (case array_index k' of
        None \<Rightarrow> (k, v) # (k', v') # kvs
      | Some m \<Rightarrow>
          if m = n then (k, v) # kvs
          else if m < n then (k', v') # insert_index n k v kvs
          else (k, v) # (k', v') # kvs)"

definition define_member :: "object \<Rightarrow> string \<Rightarrow> js \<Rightarrow> object" where
  "define_member obj k v =
     (case array_index k of None \<Rightarrow> put obj k v | Some n \<Rightarrow> insert_index n k v obj)"

text \<open>
  The tokens of a text. A number token is the longest run of number characters, which
  must be a number literal as a whole. \<open>lex_string\<close> reads a string after its opening
  quotation mark, with the characters decoded so far in reverse; a control character
  below \<open>0x20\<close> must be escaped. The strings of this theory are 8-bit, so an escape
  \<^verbatim>\<open>\uXXXX\<close> above \<^verbatim>\<open>\u00FF\<close> stands for a character that they cannot hold: reading
  stops there with \<open>Beyond\<close>. \<open>Malformed\<close> is a text that is not JSON.
\<close>

datatype lexed = Tokens "token list" | Malformed | Beyond

definition cons_token :: "token \<Rightarrow> lexed \<Rightarrow> lexed" where
  "cons_token t r =
     (case r of Tokens ts \<Rightarrow> Tokens (t # ts) | Malformed \<Rightarrow> Malformed | Beyond \<Rightarrow> Beyond)"

function lex :: "string \<Rightarrow> lexed"
  and lex_string :: "string \<Rightarrow> string \<Rightarrow> lexed" where
  "lex [] = Tokens []"
| "lex (c # cs) =
     (if is_ws c then lex cs
      else if c = CHR ''{'' then cons_token LBrace (lex cs)
      else if c = CHR ''}'' then cons_token RBrace (lex cs)
      else if c = CHR ''['' then cons_token LBracket (lex cs)
      else if c = CHR '']'' then cons_token RBracket (lex cs)
      else if c = CHR '':'' then cons_token Colon (lex cs)
      else if c = CHR '','' then cons_token Comma (lex cs)
      else if c = CHR 0x22 then lex_string [] cs
      else if c = CHR ''-'' \<or> is_digit c then
        (case number_value (c # takeWhile is_numchar cs) of
           None \<Rightarrow> Malformed
         | Some r \<Rightarrow> cons_token (TNumber r) (lex (dropWhile is_numchar cs)))
      else if take 4 (c # cs) = ''true'' then cons_token TTrue (lex (drop 3 cs))
      else if take 5 (c # cs) = ''false'' then cons_token TFalse (lex (drop 4 cs))
      else if take 4 (c # cs) = ''null'' then cons_token TNull (lex (drop 3 cs))
      else Malformed)"
| "lex_string acc [] = Malformed"
| "lex_string acc (c # cs) =
     (if c = CHR 0x22 then cons_token (TString (rev acc)) (lex cs)
      else if c = CHR 0x5C then
        (case cs of
           [] \<Rightarrow> Malformed
         | e # cs' \<Rightarrow>
             if e = CHR ''u'' then
               (if length cs' < 4 then Malformed
                else case hex_value 0 (take 4 cs') of
                       None \<Rightarrow> Malformed
                     | Some n \<Rightarrow> if n < 256 then lex_string (char_of n # acc) (drop 4 cs')
                                else Beyond)
             else (case escape e of
                     None \<Rightarrow> Malformed
                   | Some ch \<Rightarrow> lex_string (ch # acc) cs'))
      else if (of_char c :: nat) < 32 then Malformed
      else lex_string (c # acc) cs)"
  by pat_completeness auto
termination
  by (relation "measure (\<lambda>x. case x of Inl cs \<Rightarrow> length cs | Inr (acc, cs) \<Rightarrow> length cs)")
     (auto simp: less_Suc_eq_le length_dropWhile_le)

text \<open>
  The values of a token sequence, read by a pushdown automaton. The stack holds the
  arrays and objects that are still open: \<open>AFrame\<close> an array with its elements so far,
  \<open>OFrame\<close> an object with its members so far, \<open>KFrame\<close> an object whose next member
  has its key and waits for its value. The mode says which tokens may come next.
\<close>

datatype frame = AFrame "js list" | OFrame object | KFrame object string

datatype mode = MValue | MValueOrClose | MKeyOrClose | MKey | MColon | MCommaOrClose | MEnd js

fun attach :: "frame list \<Rightarrow> js \<Rightarrow> (frame list \<times> mode) option" where
  "attach [] v = Some ([], MEnd v)"
| "attach (AFrame xs # st) v = Some (AFrame (xs @ [v]) # st, MCommaOrClose)"
| "attach (KFrame kvs k # st) v = Some (OFrame (define_member kvs k v) # st, MCommaOrClose)"
| "attach (OFrame kvs # st) v = None"

fun begin_value :: "frame list \<Rightarrow> token \<Rightarrow> (frame list \<times> mode) option" where
  "begin_value st (TString s) = attach st (JString s)"
| "begin_value st (TNumber r) = attach st (JNumber (number_of_decimal r))"
| "begin_value st TTrue = attach st (JBool True)"
| "begin_value st TFalse = attach st (JBool False)"
| "begin_value st TNull = attach st JNull"
| "begin_value st LBracket = Some (AFrame [] # st, MValueOrClose)"
| "begin_value st LBrace = Some (OFrame [] # st, MKeyOrClose)"
| "begin_value st t = None"

fun close :: "frame list \<Rightarrow> token \<Rightarrow> (frame list \<times> mode) option" where
  "close (AFrame xs # st) RBracket = attach st (JArray xs)"
| "close (OFrame kvs # st) RBrace = attach st (JObject kvs)"
| "close st t = None"

fun begin_key :: "frame list \<Rightarrow> token \<Rightarrow> (frame list \<times> mode) option" where
  "begin_key (OFrame kvs # st) (TString k) = Some (KFrame kvs k # st, MColon)"
| "begin_key st t = None"

fun step :: "frame list \<times> mode \<Rightarrow> token \<Rightarrow> (frame list \<times> mode) option" where
  "step (st, MValue) t = begin_value st t"
| "step (st, MValueOrClose) t = (if t = RBracket then close st t else begin_value st t)"
| "step (st, MKeyOrClose) t = (if t = RBrace then close st t else begin_key st t)"
| "step (st, MKey) t = begin_key st t"
| "step (st, MColon) t = (if t = Colon then Some (st, MValue) else None)"
| "step (st, MCommaOrClose) t =
     (if t = Comma then
        (case st of
           AFrame xs # st' \<Rightarrow> Some (st, MValue)
         | OFrame kvs # st' \<Rightarrow> Some (st, MKey)
         | _ \<Rightarrow> None)
      else close st t)"
| "step (st, MEnd v) t = None"

fun steps :: "frame list \<times> mode \<Rightarrow> token list \<Rightarrow> (frame list \<times> mode) option" where
  "steps s [] = Some s"
| "steps s (t # ts) = (case step s t of None \<Rightarrow> None | Some s' \<Rightarrow> steps s' ts)"

text \<open>
  \<open>json_read\<close> is the built-in \<^verbatim>\<open>JSON.parse\<close> on the texts that it reads to the end: it
  gives the value of a text of the JSON grammar and the SyntaxError thrown on a text
  that is not JSON. It gives \<open>None\<close> on a text that is beyond the 8-bit strings.
\<close>

definition json_read :: "string \<Rightarrow> (exn + js) option" where
  "json_read text =
     (case lex text of
        Beyond \<Rightarrow> None
      | Malformed \<Rightarrow> Some (Inl (SyntaxError ''Unexpected token in JSON''))
      | Tokens ts \<Rightarrow>
          (case steps ([], MValue) ts of
             Some ([], MEnd v) \<Rightarrow> Some (Inr v)
           | _ \<Rightarrow> Some (Inl (SyntaxError ''Unexpected token in JSON''))))"

text \<open>
  \<^verbatim>\<open>JSON.parse\<close>: what \<open>json_read\<close> gives, and on the texts beyond it whatever the
  function \<open>wide\<close> gives, which is left open.
\<close>

definition json_parse :: "(string \<Rightarrow> exn + js) \<Rightarrow> string \<Rightarrow> exn + js" where
  "json_parse wide text = (case json_read text of None \<Rightarrow> wide text | Some r \<Rightarrow> r)"

text \<open>
  The global object of a Node process in which nothing defines \<^verbatim>\<open>MolchPlusAPIError\<close>,
  \<^verbatim>\<open>OpenIDProfile\<close> or \<^verbatim>\<open>MolchPlusProfile\<close>: the module is the only source file, and it
  assigns to no global.
\<close>

definition node :: "(string \<Rightarrow> exn + js) \<Rightarrow> globals" where
  "node wide = \<lparr>JSON_parse = json_parse wide, MolchPlusAPIError = None, OpenIDProfile = None,
                MolchPlusProfile = None\<rparr>"

text \<open>
  A function for the texts beyond the reader that rejects them all, for the examples
  that need one.
\<close>

definition reject_wide :: "string \<Rightarrow> exn + js" where
  "reject_wide text = Inl (SyntaxError ''Unexpected token in JSON'')"

section \<open>Sequences of operations\<close>

text \<open>
  The operations that the host framework invokes on a strategy once it is built: a
  profile fetch, with the answer of its GET, and the building of the authorization
  parameters. \<open>invoke\<close> gives the result of an operation and the strategy it leaves
  behind, \<open>run\<close> the strategy after a sequence of operations.
\<close>

datatype call = UserProfile "transport_error option" string | AuthorizationParams object

datatype result = Fetched outcome | Params object

fun invoke :: "globals \<Rightarrow> strategy \<Rightarrow> call \<Rightarrow> result \<times> strategy" where
  "invoke g self (UserProfile err body) =
     (Fetched (fst (userProfile g self err body)), snd (userProfile g self err body))"
| "invoke g self (AuthorizationParams opts) = (Params (authorizationParams opts), self)"

fun run :: "globals \<Rightarrow> strategy \<Rightarrow> call list \<Rightarrow> strategy" where
  "run g self [] = self"
| "run g self (c # cs) = run g (snd (invoke g self c)) cs"

section \<open>Objects\<close>

lemma get_put: "get (put obj k v) k' = (if k' = k then v else get obj k')"
  by (induction obj) (auto simp: get_def)

section \<open>The texts of the examples\<close>

lemma array_index_name: "c \<notin> set ''0123456789'' \<Longrightarrow> array_index (c # cs) = None"
  by (simp add: array_index_def is_digit_def)

lemma lex_api_error:
  \<open>lex ''{"error":{"message":"bad","code":7}}'' =
     Tokens [LBrace, TString ''error'', Colon, LBrace, TString ''message'', Colon, TString ''bad'',
           Comma, TString ''code'', Colon, TNumber 7, RBrace, RBrace]\<close>
  by code_simp

lemma binary_exponent_7: "binary_exponent 7 = 2"
  by code_simp

lemma number_of_decimal_7: "number_of_decimal 7 = Finite 7"
  by (simp add: number_of_decimal_def binary_exponent_7 Let_def pow2_def round_half_even_def)

lemma json_read_api_error:
  \<open>json_read ''{"error":{"message":"bad","code":7}}'' =
     Some (Inr (JObject [(''error'', JObject [(''message'', JString ''bad''),
                                              (''code'', JNumber (Finite 7))])]))\<close>
  unfolding json_read_def lex_api_error
  by (simp add: number_of_decimal_7 define_member_def array_index_name)

lemma lex_oauth_error:
  \<open>lex ''{"error":"invalid_grant","error_description":"expired"}'' =
     Tokens [LBrace, TString ''error'', Colon, TString ''invalid_grant'', Comma,
           TString ''error_description'', Colon, TString ''expired'', RBrace]\<close>
  by code_simp

lemma json_read_oauth_error:
  \<open>json_read ''{"error":"invalid_grant","error_description":"expired"}'' =
     Some (Inr (JObject [(''error'', JString ''invalid_grant''),
                         (''error_description'', JString ''expired'')]))\<close>
  unfolding json_read_def lex_oauth_error
  by (simp add: define_member_def array_index_name)

lemma lex_credentials:
  \<open>lex ''{"error":{"message":"Invalid Credentials"}}'' =
     Tokens [LBrace, TString ''error'', Colon, LBrace, TString ''message'', Colon,
           TString ''Invalid Credentials'', RBrace, RBrace]\<close>
  by code_simp

lemma json_read_credentials:
  \<open>json_read ''{"error":{"message":"Invalid Credentials"}}'' =
     Some (Inr (JObject [(''error'', JObject [(''message'', JString ''Invalid Credentials'')])]))\<close>
  unfolding json_read_def lex_credentials
  by (simp add: define_member_def array_index_name)

lemma json_read_html:
  \<open>json_read ''<html>'' = Some (Inl (SyntaxError ''Unexpected token in JSON''))\<close>
  by code_simp

lemma lex_claims:
  \<open>lex ''{"sub":"1234","name":"Ann"}'' =
     Tokens [LBrace, TString ''sub'', Colon, TString ''1234'', Comma, TString ''name'', Colon,
           TString ''Ann'', RBrace]\<close>
  by code_simp

lemma json_read_claims:
  \<open>json_read ''{"sub":"1234","name":"Ann"}'' =
     Some (Inr (JObject [(''sub'', JString ''1234''), (''name'', JString ''Ann'')]))\<close>
  unfolding json_read_def lex_claims
  by (simp add: define_member_def array_index_name)

section \<open>The suffix test of the constructor\<close>

lemma indexOf_from_spec:
  "0 \<le> i \<Longrightarrow>
   (indexOf_from i s p = - 1 \<and> (\<forall>k \<le> length s. take (length p) (drop k s) \<noteq> p))
   \<or> (\<exists>k \<le> length s. indexOf_from i s p = i + int k \<and> take (length p) (drop k s) = p
          \<and> (\<forall>j < k. take (length p) (drop j s) \<noteq> p))"
proof (induction s arbitrary: i)
  case Nil
  then show ?case by (cases "p = []") auto
next
  case (Cons c cs)
  show ?case
  proof (cases "take (length p) (c # cs) = p")
    case True
    then have "indexOf_from i (c # cs) p = i + int 0 \<and> take (length p) (drop 0 (c # cs)) = p
        \<and> (\<forall>j < 0. take (length p) (drop j (c # cs)) \<noteq> p)"
      by simp
    then show ?thesis by blast
  next
    case False
    from Cons.prems have "0 \<le> i + 1" by simp
    from Cons.IH [OF this] show ?thesis
    proof
      assume none: "indexOf_from (i + 1) cs p = - 1
          \<and> (\<forall>k \<le> length cs. take (length p) (drop k cs) \<noteq> p)"
      have "take (length p) (drop k (c # cs)) \<noteq> p" if "k \<le> length (c # cs)" for k
        using that none False by (cases k) auto
      with none False show ?thesis by simp
    next
      assume "\<exists>k \<le> length cs. indexOf_from (i + 1) cs p = i + 1 + int k
          \<and> take (length p) (drop k cs) = p \<and> (\<forall>j < k. take (length p) (drop j cs) \<noteq> p)"
      then obtain k where k: "k \<le> length cs" "indexOf_from (i + 1) cs p = i + 1 + int k"
          "take (length p) (drop k cs) = p" "\<forall>j < k. take (length p) (drop j cs) \<noteq> p"
        by blast
      have "take (length p) (drop j (c # cs)) \<noteq> p" if "j < Suc k" for j
        using that k(4) False by (cases j) auto
      with k False have "Suc k \<le> length (c # cs)
          \<and> indexOf_from i (c # cs) p = i + int (Suc k)
          \<and> take (length p) (drop (Suc k) (c # cs)) = p
          \<and> (\<forall>j < Suc k. take (length p) (drop j (c # cs)) \<noteq> p)"
        by simp
      then show ?thesis by blast
    qed
  qed
qed

text \<open>
  The comparison of line 55 and the suffix test. When the comparison holds the string
  ends with the pattern, unless the string is one character shorter than the pattern:
  then both sides are \<open>-1\<close> and the comparison always holds. When the string ends with
  the pattern the comparison holds if the pattern does not occur earlier as well.
\<close>

lemma index_test_sound:
  assumes "indexOf s p = int (length s) - int (length p)" and "length s + 1 \<noteq> length p"
  shows "ends_with s p"
proof -
  from indexOf_from_spec [of 0 s p] assms obtain k where
    k: "k \<le> length s" "int k = int (length s) - int (length p)" "take (length p) (drop k s) = p"
    by (auto simp: indexOf_def)
  from k(1,2) have "length p \<le> length s" "k = length s - length p" by linarith+
  with k(3) show ?thesis by (simp add: ends_with_def)
qed

lemma index_test_short:
  assumes "length s + 1 = length p"
  shows "indexOf s p = int (length s) - int (length p)"
proof -
  have "take (length p) (drop k s) \<noteq> p" for k
  proof
    assume "take (length p) (drop k s) = p"
    then have "length (take (length p) (drop k s)) = length p" by simp
    with assms show False by simp
  qed
  with indexOf_from_spec [of 0 s p] have "indexOf s p = - 1"
    by (auto simp: indexOf_def)
  with assms show ?thesis by simp
qed

lemma index_test_complete:
  assumes "ends_with s p"
    and "\<forall>j. j + length p < length s \<longrightarrow> take (length p) (drop j s) \<noteq> p"
  shows "indexOf s p = int (length s) - int (length p)"
proof -
  let ?k0 = "length s - length p"
  from assms(1) have le: "length p \<le> length s" and at: "take (length p) (drop ?k0 s) = p"
    by (simp_all add: ends_with_def)
  have "\<not> (\<forall>k \<le> length s. take (length p) (drop k s) \<noteq> p)"
  proof
    assume "\<forall>k \<le> length s. take (length p) (drop k s) \<noteq> p"
    moreover have "?k0 \<le> length s" by simp
    ultimately have "take (length p) (drop ?k0 s) \<noteq> p" by blast
    with at show False by contradiction
  qed
  with indexOf_from_spec [of 0 s p] obtain k where
    k: "k \<le> length s" "indexOf s p = int k" "take (length p) (drop k s) = p"
       "\<forall>j < k. take (length p) (drop j s) \<noteq> p"
    unfolding indexOf_def by auto
  from k(4) at have "\<not> ?k0 < k" by blast
  moreover from assms(2) k(3) have "\<not> k + length p < length s" by blast
  ultimately have "k = ?k0" using le by linarith
  with k(2) le show ?thesis by simp
qed

lemma format_openid_sound:
  "userProfileFormat_of pathname = ''openid'' \<Longrightarrow> length pathname \<noteq> 8 \<Longrightarrow>
   ends_with pathname ''/userinfo''"
  by (rule index_test_sound) (simp_all add: userProfileFormat_of_def split: if_splits)

lemma format_openid_short: "length pathname = 8 \<Longrightarrow> userProfileFormat_of pathname = ''openid''"
  using index_test_short [of pathname "''/userinfo''"] by (simp add: userProfileFormat_of_def)

lemma format_openid_complete:
  assumes "ends_with pathname ''/userinfo''"
    and "\<forall>j. j + 9 < length pathname \<longrightarrow> take 9 (drop j pathname) \<noteq> ''/userinfo''"
  shows "userProfileFormat_of pathname = ''openid''"
proof -
  have len: "length ''/userinfo'' = 9" by simp
  from assms(2) have "\<forall>j. j + length ''/userinfo'' < length pathname \<longrightarrow>
      take (length ''/userinfo'') (drop j pathname) \<noteq> ''/userinfo''"
    by (simp only: len)
  from index_test_complete [OF assms(1) this] show ?thesis
    by (simp add: userProfileFormat_of_def)
qed

lemma Strategy_format:
  assumes "Strategy uri_parse opts = Inr self"
  shows "\<exists>pathname. uri_parse (this_userProfileURL self) = Some pathname
           \<and> this_userProfileFormat self = userProfileFormat_of pathname"
  using assms by (auto simp: Strategy_def Let_def split: option.splits)

lemma format_userinfo: "userProfileFormat_of ''/oauth2/v3/userinfo'' = ''openid''"
  by code_simp

lemma format_profile: "userProfileFormat_of ''/profile'' = ''openid''"
  by code_simp

lemma format_twice: "userProfileFormat_of ''/userinfo/v2/userinfo'' = ''molch''"
  by code_simp

lemma profile_no_suffix: "\<not> ends_with ''/profile'' ''/userinfo''"
  by (simp add: ends_with_def)

lemma twice_suffix: "ends_with ''/userinfo/v2/userinfo'' ''/userinfo''"
  by (simp add: ends_with_def)

text \<open>
  Claim C1. The constructor compares the index of the first \<^verbatim>\<open>'/userinfo'\<close> with the
  length of the path less nine. A path of eight characters without \<^verbatim>\<open>'/userinfo'\<close>, such
  as \<^verbatim>\<open>'/profile'\<close>, gives \<open>-1\<close> on both sides and the format \<^verbatim>\<open>'openid'\<close>, though it does
  not end with the suffix; a path that ends with the suffix and holds it earlier too gives
  the format \<^verbatim>\<open>'molch'\<close>.
\<close>

theorem Strategy_format_is_not_suffix_test:
  "Strategy (map_of [(''https://auth.molch.at/profile'', ''/profile'')])
      \<lparr>authorizationURL = None, tokenURL = None,
       userProfileURL = Some ''https://auth.molch.at/profile''\<rparr> =
     Inr (molch_strategy ''https://auth.molch.at/profile'' ''openid'')
   \<and> \<not> ends_with ''/profile'' ''/userinfo''
   \<and> Strategy (map_of [(''https://auth.molch.at/userinfo/v2/userinfo'', ''/userinfo/v2/userinfo'')])
      \<lparr>authorizationURL = None, tokenURL = None,
       userProfileURL = Some ''https://auth.molch.at/userinfo/v2/userinfo''\<rparr> =
     Inr (molch_strategy ''https://auth.molch.at/userinfo/v2/userinfo'' ''molch'')
   \<and> ends_with ''/userinfo/v2/userinfo'' ''/userinfo''"
  by (simp add: Strategy_def or_default_def molch_strategy_def format_profile format_twice
      profile_no_suffix twice_suffix)

section \<open>Failed fetches\<close>

lemma error_json_data:
  "data e = Some d \<Longrightarrow> d \<noteq> [] \<Longrightarrow> JSON_parse g d = Inr json \<Longrightarrow> error_json g e = json"
  by (simp add: error_json_def)

lemma error_json_absent: "data e = None \<Longrightarrow> error_json g e = JUndefined"
  by (simp add: error_json_def)

lemma error_json_invalid: "data e = Some d \<Longrightarrow> JSON_parse g d = Inl ex \<Longrightarrow> error_json g e = JUndefined"
  by (simp add: error_json_def)

text \<open>
  When the test of line 92 succeeds, the callback evaluates \<^verbatim>\<open>MolchPlusAPIError\<close>: it
  throws when nothing defines the name, and hands the constructed error to \<^verbatim>\<open>done\<close>
  otherwise.
\<close>

lemma fetch_failed_api_error:
  "api_error_shape (error_json g e) \<Longrightarrow>
   fetch_failed g e =
     (case MolchPlusAPIError g of
        None \<Rightarrow> Thrown (ReferenceError ''MolchPlusAPIError is not defined'')
      | Some new \<Rightarrow>
          Done_err (new (getprop (getprop (error_json g e) ''error'') ''message'')
                        (getprop (getprop (error_json g e) ''error'') ''code'')))"
  by (simp add: fetch_failed_def resolve_def Let_def split: option.split)

text \<open>
  A failure whose error body passes neither the test of line 92 nor that of line 94
  reaches line 97: \<^verbatim>\<open>done\<close> gets the InternalOAuthError that wraps the transport error.
  That is so when the body is absent or empty and when \<^verbatim>\<open>JSON.parse\<close> rejects it.
\<close>

lemma userProfile_generic_error:
  "\<not> api_error_shape (error_json g e) \<Longrightarrow> \<not> oauth_error_shape (error_json g e) \<Longrightarrow>
   userProfile g self (Some e) body =
     (Done_err (InternalOAuthError ''Failed to fetch user profile'' e), self)"
  by (simp add: userProfile_def fetch_failed_def)

lemma userProfile_no_document:
  "error_json g e = JUndefined \<Longrightarrow>
   userProfile g self (Some e) body =
     (Done_err (InternalOAuthError ''Failed to fetch user profile'' e), self)"
  by (simp add: userProfile_generic_error api_error_shape_def oauth_error_shape_def)

text \<open>
  Claim C2. When the GET fails with the error body
  \<^verbatim>\<open>{"error":{"message":"bad","code":7}}\<close>, the callback reaches line 93, where
  \<^verbatim>\<open>new MolchPlusAPIError(...)\<close> names a constructor that the module never declares (line 6
  binds \<^verbatim>\<open>MolchAPIError\<close>): a ReferenceError is thrown and \<^verbatim>\<open>done\<close> is not called.
\<close>

theorem userProfile_api_error_throws:
  \<open>userProfile (node wide) self
      (Some \<lparr>statusCode = sc, data = Some ''{"error":{"message":"bad","code":7}}''\<rparr>) body =
     (Thrown (ReferenceError ''MolchPlusAPIError is not defined''), self)\<close>
proof -
  let ?e = \<open>\<lparr>statusCode = sc, data = Some ''{"error":{"message":"bad","code":7}}''\<rparr>\<close>
  have j: "error_json (node wide) ?e =
      JObject [(''error'', JObject [(''message'', JString ''bad''), (''code'', JNumber (Finite 7))])]"
    by (rule error_json_data [where d = \<open>''{"error":{"message":"bad","code":7}}''\<close>])
       (simp_all add: node_def json_parse_def json_read_api_error)
  have "api_error_shape (error_json (node wide) ?e)"
    unfolding j by (simp add: api_error_shape_def get_def)
  from fetch_failed_api_error [OF this] show ?thesis
    by (simp add: userProfile_def node_def)
qed

text \<open>
  Claim C4. When the GET fails with the error body
  \<^verbatim>\<open>{"error":"invalid_grant","error_description":"expired"}\<close>, \<^verbatim>\<open>userProfile\<close> calls
  \<^verbatim>\<open>done\<close> with a UserInfoError whose description is \<^verbatim>\<open>"expired"\<close> and whose code is
  \<^verbatim>\<open>"invalid_grant"\<close>, whatever the global scope holds under the undeclared names.
\<close>

theorem userProfile_oauth_error:
  \<open>userProfile (g\<lparr>JSON_parse := json_parse wide\<rparr>) self
      (Some \<lparr>statusCode = sc,
             data = Some ''{"error":"invalid_grant","error_description":"expired"}''\<rparr>) body =
     (Done_err (UserInfo (UserInfoError (JString ''expired'') (JString ''invalid_grant''))), self)\<close>
proof -
  let ?g = "g\<lparr>JSON_parse := json_parse wide\<rparr>"
  let ?e = \<open>\<lparr>statusCode = sc,
             data = Some ''{"error":"invalid_grant","error_description":"expired"}''\<rparr>\<close>
  have j: "error_json ?g ?e =
      JObject [(''error'', JString ''invalid_grant''), (''error_description'', JString ''expired'')]"
    by (rule error_json_data
          [where d = \<open>''{"error":"invalid_grant","error_description":"expired"}''\<close>])
       (simp_all add: json_parse_def json_read_oauth_error)
  have "fetch_failed ?g ?e =
      Done_err (UserInfo (UserInfoError (JString ''expired'') (JString ''invalid_grant'')))"
    unfolding fetch_failed_def j
    by (simp add: api_error_shape_def oauth_error_shape_def get_def)
  then show ?thesis
    by (simp add: userProfile_def)
qed

text \<open>
  Claim C6. Not every failure reaches \<^verbatim>\<open>done\<close>: for every transport failure whose error
  body passes the test of line 92, the callback throws the ReferenceError of line 93
  instead of calling \<^verbatim>\<open>done\<close>.
\<close>

theorem userProfile_failure_thrown:
  "api_error_shape (error_json (node wide) e) \<Longrightarrow>
   userProfile (node wide) self (Some e) body =
     (Thrown (ReferenceError ''MolchPlusAPIError is not defined''), self)"
  using fetch_failed_api_error [of "node wide" e]
  by (simp add: userProfile_def node_def)

theorem userProfile_failure_thrown_witness:
  \<open>api_error_shape
     (error_json (node reject_wide)
        \<lparr>statusCode = Some 401, data = Some ''{"error":{"message":"Invalid Credentials"}}''\<rparr>) \<and>
   userProfile (node reject_wide)
     (molch_strategy ''https://auth.molch.at/oauth2/userinfo/index.pl'' ''molch'')
     (Some \<lparr>statusCode = Some 401, data = Some ''{"error":{"message":"Invalid Credentials"}}''\<rparr>)
     [] =
     (Thrown (ReferenceError ''MolchPlusAPIError is not defined''),
      (molch_strategy ''https://auth.molch.at/oauth2/userinfo/index.pl'' ''molch''))\<close>
proof -
  let ?e = \<open>\<lparr>statusCode = Some 401, data = Some ''{"error":{"message":"Invalid Credentials"}}''\<rparr>\<close>
  have j: "error_json (node reject_wide) ?e =
      JObject [(''error'', JObject [(''message'', JString ''Invalid Credentials'')])]"
    by (rule error_json_data [where d = \<open>''{"error":{"message":"Invalid Credentials"}}''\<close>])
       (simp_all add: node_def json_parse_def json_read_credentials)
  have h: "api_error_shape (error_json (node reject_wide) ?e)"
    unfolding j by (simp add: api_error_shape_def get_def)
  show ?thesis
    using h userProfile_failure_thrown [OF h] by simp
qed

section \<open>Successful fetches\<close>

text \<open>
  On a parsed body the callback evaluates the parser that the format selects. When the
  global scope holds it and it returns a profile, \<^verbatim>\<open>done\<close> gets that profile with
  \<^verbatim>\<open>provider\<close> set to \<^verbatim>\<open>'molch'\<close>, \<^verbatim>\<open>_raw\<close> to the body and \<^verbatim>\<open>_json\<close> to the parsed
  document, and with its other fields as the parser gave them.
\<close>

lemma deliver_profile:
  "\<exists>p. deliver body json (Inr profile) = Done_ok p
       \<and> get p ''provider'' = JString ''molch'' \<and> get p ''_raw'' = JString body
       \<and> get p ''_json'' = json
       \<and> (\<forall>k. k \<noteq> ''provider'' \<and> k \<noteq> ''_raw'' \<and> k \<noteq> ''_json'' \<longrightarrow> get p k = get profile k)"
  by (simp add: deliver_def get_put)

lemma fetch_succeeded_openid_bound:
  assumes "JSON_parse g body = Inr json" and "this_userProfileFormat self = ''openid''"
    and "OpenIDProfile g = Some parse" and "parse json = Inr profile"
  shows "fetch_succeeded g self body = deliver body json (Inr profile)"
  using assms by (simp add: fetch_succeeded_def parse_profile_def call_parse_def resolve_def)

lemma fetch_succeeded_unbound:
  assumes "JSON_parse g body = Inr json"
    and "OpenIDProfile g = None" and "MolchPlusProfile g = None"
  shows "fetch_succeeded g self body =
     Thrown (ReferenceError
       (if this_userProfileFormat self = ''openid'' then ''OpenIDProfile is not defined''
        else ''MolchPlusProfile is not defined''))"
  using assms
  by (simp add: fetch_succeeded_def parse_profile_def call_parse_def resolve_def deliver_def)

text \<open>
  Claim C5. For every response body on the success path that \<^verbatim>\<open>JSON.parse\<close> rejects,
  whatever the global scope holds, \<^verbatim>\<open>userProfile\<close> calls \<^verbatim>\<open>done\<close> with the error
  \<^verbatim>\<open>'Failed to parse user profile'\<close>; it does not throw.
\<close>

theorem userProfile_malformed_body:
  "JSON_parse g body = Inl ex \<Longrightarrow>
   userProfile g self None body = (Done_err (Error ''Failed to parse user profile''), self)"
  by (simp add: userProfile_def fetch_succeeded_def)

theorem userProfile_malformed_body_witness:
  \<open>JSON_parse (node reject_wide) ''<html>'' = Inl (SyntaxError ''Unexpected token in JSON'') \<and>
   userProfile (node reject_wide) (molch_strategy ''https://auth.molch.at/oauth2/userinfo/index.pl'' ''molch'') None ''<html>'' =
     (Done_err (Error ''Failed to parse user profile''),
      (molch_strategy ''https://auth.molch.at/oauth2/userinfo/index.pl'' ''molch''))\<close>
proof -
  have h: \<open>JSON_parse (node reject_wide) ''<html>'' = Inl (SyntaxError ''Unexpected token in JSON'')\<close>
    by (simp add: node_def json_parse_def json_read_html)
  show ?thesis
    using h userProfile_malformed_body [OF h] by simp
qed

text \<open>
  Claim C3. For every body that \<^verbatim>\<open>JSON.parse\<close> accepts, when the format is
  \<^verbatim>\<open>'openid'\<close> the callback reaches line 109, where \<^verbatim>\<open>OpenIDProfile\<close> is a name that the
  module never declares: a ReferenceError is thrown, and \<^verbatim>\<open>done\<close> gets no profile.
\<close>

theorem userProfile_openid_throws:
  "JSON_parse (node wide) body = Inr json \<Longrightarrow> this_userProfileFormat self = ''openid'' \<Longrightarrow>
   userProfile (node wide) self None body =
     (Thrown (ReferenceError ''OpenIDProfile is not defined''), self)"
  using fetch_succeeded_unbound [of "node wide" body json self]
  by (simp add: userProfile_def node_def)

theorem userProfile_openid_throws_witness:
  \<open>JSON_parse (node reject_wide) ''{"sub":"1234","name":"Ann"}'' =
     Inr (JObject [(''sub'', JString ''1234''), (''name'', JString ''Ann'')]) \<and>
   this_userProfileFormat
     (molch_strategy ''https://auth.molch.at/oauth2/v3/userinfo'' ''openid'') = ''openid'' \<and>
   userProfile (node reject_wide)
     (molch_strategy ''https://auth.molch.at/oauth2/v3/userinfo'' ''openid'')
     None ''{"sub":"1234","name":"Ann"}'' =
     (Thrown (ReferenceError ''OpenIDProfile is not defined''),
      (molch_strategy ''https://auth.molch.at/oauth2/v3/userinfo'' ''openid''))\<close>
proof -
  have h: \<open>JSON_parse (node reject_wide) ''{"sub":"1234","name":"Ann"}'' =
     Inr (JObject [(''sub'', JString ''1234''), (''name'', JString ''Ann'')])\<close>
    by (simp add: node_def json_parse_def json_read_claims)
  show ?thesis
    using h userProfile_openid_throws [OF h] by (simp add: molch_strategy_def)
qed

section \<open>Authorization parameters\<close>

lemma put_fresh: "k \<notin> fst ` set ps \<Longrightarrow> put ps k v = ps @ [(k, v)]"
  by (induction ps) auto

lemma if_put_fresh:
  "k \<notin> fst ` set ps \<Longrightarrow> (if c then put ps k v else ps) = ps @ (if c then [(k, v)] else [])"
  by (simp add: put_fresh)

lemma fresh_if: "k \<noteq> k' \<Longrightarrow> k \<notin> fst ` set (if c then [(k', v)] else [])"
  by (cases c) simp_all

lemma fresh_append: "k \<notin> fst ` set ps \<Longrightarrow> k \<notin> fst ` set qs \<Longrightarrow> k \<notin> fst ` set (ps @ qs)"
  by auto

text \<open>
  The parameters as a list: one entry for each truthy option, in the order of the
  eight \<^verbatim>\<open>if\<close> statements.
\<close>

lemma authorizationParams_list:
  "authorizationParams opts =
     (if truthy (get opts ''accessType'') then [(''access_type'', get opts ''accessType'')] else [])
     @ (if truthy (get opts ''prompt'') then [(''prompt'', get opts ''prompt'')] else [])
     @ (if truthy (get opts ''loginHint'') then [(''login_hint'', get opts ''loginHint'')] else [])
     @ (if truthy (get opts ''includeGrantedScopes'')
        then [(''include_granted_scopes'', JBool True)] else [])
     @ (if truthy (get opts ''display'') then [(''display'', get opts ''display'')] else [])
     @ (if truthy (get opts ''openIDRealm'') then [(''openid.realm'', get opts ''openIDRealm'')] else [])
     @ (if truthy (get opts ''approvalPrompt'')
        then [(''approval_prompt'', get opts ''approvalPrompt'')] else [])
     @ (if truthy (get opts ''userID'') then [(''user_id'', get opts ''userID'')] else [])"
proof -
  let ?s1 = "if truthy (get opts ''accessType'') then [(''access_type'', get opts ''accessType'')] else []"
  let ?s2 = "if truthy (get opts ''prompt'') then [(''prompt'', get opts ''prompt'')] else []"
  let ?s3 = "if truthy (get opts ''loginHint'') then [(''login_hint'', get opts ''loginHint'')] else []"
  let ?s4 = "if truthy (get opts ''includeGrantedScopes'')
        then [(''include_granted_scopes'', JBool True)] else []"
  let ?s5 = "if truthy (get opts ''display'') then [(''display'', get opts ''display'')] else []"
  let ?s6 = "if truthy (get opts ''openIDRealm'') then [(''openid.realm'', get opts ''openIDRealm'')] else []"
  let ?s7 = "if truthy (get opts ''approvalPrompt'')
        then [(''approval_prompt'', get opts ''approvalPrompt'')] else []"
  let ?p1 = "if truthy (get opts ''accessType'') then put [] ''access_type'' (get opts ''accessType'') else []"
  have p1: "?p1 = ?s1" by simp
  let ?p2 = "if truthy (get opts ''prompt'') then put ?s1 ''prompt'' (get opts ''prompt'') else ?s1"
  have p2: "?p2 = ?s1 @ ?s2"
    by (rule if_put_fresh) (rule fresh_if, simp)
  let ?p3 = "if truthy (get opts ''loginHint'') then put (?s1 @ ?s2) ''login_hint'' (get opts ''loginHint'') else ?s1 @ ?s2"
  have p3: "?p3 = (?s1 @ ?s2) @ ?s3"
    by (rule if_put_fresh) (intro fresh_append fresh_if; simp)
  let ?q3 = "(?s1 @ ?s2) @ ?s3"
  let ?p4 = "if truthy (get opts ''includeGrantedScopes'') then put ?q3 ''include_granted_scopes'' (JBool True) else ?q3"
  have p4: "?p4 = ?q3 @ ?s4"
    by (rule if_put_fresh) (intro fresh_append fresh_if; simp)
  let ?q4 = "?q3 @ ?s4"
  let ?p5 = "if truthy (get opts ''display'') then put ?q4 ''display'' (get opts ''display'') else ?q4"
  have p5: "?p5 = ?q4 @ ?s5"
    by (rule if_put_fresh) (intro fresh_append fresh_if; simp)
  let ?q5 = "?q4 @ ?s5"
  let ?p6 = "if truthy (get opts ''openIDRealm'') then put ?q5 ''openid.realm'' (get opts ''openIDRealm'') else ?q5"
  have p6: "?p6 = ?q5 @ ?s6"
    by (rule if_put_fresh) (intro fresh_append fresh_if; simp)
  let ?q6 = "?q5 @ ?s6"
  let ?p7 = "if truthy (get opts ''approvalPrompt'') then put ?q6 ''approval_prompt'' (get opts ''approvalPrompt'') else ?q6"
  have p7: "?p7 = ?q6 @ ?s7"
    by (rule if_put_fresh) (intro fresh_append fresh_if; simp)
  let ?q7 = "?q6 @ ?s7"
  let ?p8 = "if truthy (get opts ''userID'') then put ?q7 ''user_id'' (get opts ''userID'') else ?q7"
  have p8: "?p8 = ?q7 @ (if truthy (get opts ''userID'') then [(''user_id'', get opts ''userID'')] else [])"
    by (rule if_put_fresh) (intro fresh_append fresh_if; simp)
  show ?thesis
    unfolding authorizationParams_def Let_def p1 p2 p3 p4 p5 p6 p7 p8
    by (simp only: append_assoc)
qed

lemma map_of_entry_append:
  "map_of ((if c then [(k', v)] else []) @ rest) k =
     (if c \<and> k = k' then Some v else map_of rest k)"
  by simp

lemma map_of_entry:
  "map_of (if c then [(k', v)] else []) k = (if c \<and> k = k' then Some v else None)"
  by simp

text \<open>The parameters as a mapping: each key is there exactly when its option is truthy.\<close>

lemma map_of_authorizationParams:
  "map_of (authorizationParams opts) k =
     (if truthy (get opts ''accessType'') \<and> k = ''access_type''
        then Some (get opts ''accessType'')
      else if truthy (get opts ''prompt'') \<and> k = ''prompt'' then Some (get opts ''prompt'')
      else if truthy (get opts ''loginHint'') \<and> k = ''login_hint''
        then Some (get opts ''loginHint'')
      else if truthy (get opts ''includeGrantedScopes'') \<and> k = ''include_granted_scopes''
        then Some (JBool True)
      else if truthy (get opts ''display'') \<and> k = ''display'' then Some (get opts ''display'')
      else if truthy (get opts ''openIDRealm'') \<and> k = ''openid.realm''
        then Some (get opts ''openIDRealm'')
      else if truthy (get opts ''approvalPrompt'') \<and> k = ''approval_prompt''
        then Some (get opts ''approvalPrompt'')
      else if truthy (get opts ''userID'') \<and> k = ''user_id'' then Some (get opts ''userID'')
      else None)"
  by (simp only: authorizationParams_list map_of_entry_append map_of_entry)

lemma recognized_iff:
  "(opt, key) \<in> set recognized \<longleftrightarrow>
     opt = ''accessType'' \<and> key = ''access_type''
   \<or> opt = ''prompt'' \<and> key = ''prompt''
   \<or> opt = ''loginHint'' \<and> key = ''login_hint''
   \<or> opt = ''includeGrantedScopes'' \<and> key = ''include_granted_scopes''
   \<or> opt = ''display'' \<and> key = ''display''
   \<or> opt = ''openIDRealm'' \<and> key = ''openid.realm''
   \<or> opt = ''approvalPrompt'' \<and> key = ''approval_prompt''
   \<or> opt = ''userID'' \<and> key = ''user_id''"
  by (simp add: recognized_def)

lemma param_of_option:
  assumes "(opt, key) \<in> set recognized"
  shows "map_of (authorizationParams opts) key =
     (if truthy (get opts opt)
      then Some (if opt = ''includeGrantedScopes'' then JBool True else get opts opt)
      else None)"
  using assms unfolding recognized_iff
  by (elim disjE conjE) (simp_all add: map_of_authorizationParams)

lemma param_keys: "fst ` set (authorizationParams opts) \<subseteq> snd ` set recognized"
proof
  fix k assume "k \<in> fst ` set (authorizationParams opts)"
  then have present: "map_of (authorizationParams opts) k \<noteq> None"
    by (simp add: map_of_eq_None_iff)
  show "k \<in> snd ` set recognized"
  proof (rule ccontr)
    assume "k \<notin> snd ` set recognized"
    then have "map_of (authorizationParams opts) k = None"
      by (simp add: recognized_def map_of_authorizationParams)
    with present show False by contradiction
  qed
qed

lemma get_supplied: "truthy (get opts opt) \<Longrightarrow> opt \<in> fst ` set opts"
proof (cases "map_of opts opt")
  case None
  moreover assume "truthy (get opts opt)"
  ultimately show ?thesis by (simp add: get_def)
next
  case (Some v)
  then have "(opt, v) \<in> set opts" by (rule map_of_SomeD)
  then show ?thesis by force
qed

lemma param_only_if_supplied:
  assumes "(opt, key) \<in> set recognized" and "key \<in> fst ` set (authorizationParams opts)"
  shows "opt \<in> fst ` set opts"
proof -
  from assms(2) have "map_of (authorizationParams opts) key \<noteq> None"
    by (simp add: map_of_eq_None_iff)
  with param_of_option [OF assms(1), of opts] have "truthy (get opts opt)"
    by (simp split: if_splits)
  then show ?thesis by (rule get_supplied)
qed

lemma authorizationParams_cong:
  assumes "\<forall>opt \<in> fst ` set recognized. get opts opt = get opts' opt"
  shows "authorizationParams opts = authorizationParams opts'"
proof -
  from assms have
    "get opts ''accessType'' = get opts' ''accessType''"
    "get opts ''prompt'' = get opts' ''prompt''"
    "get opts ''loginHint'' = get opts' ''loginHint''"
    "get opts ''includeGrantedScopes'' = get opts' ''includeGrantedScopes''"
    "get opts ''display'' = get opts' ''display''"
    "get opts ''openIDRealm'' = get opts' ''openIDRealm''"
    "get opts ''approvalPrompt'' = get opts' ''approvalPrompt''"
    "get opts ''userID'' = get opts' ''userID''"
    by (simp_all add: recognized_def)
  then show ?thesis
    by (simp only: authorizationParams_def)
qed

lemma get_without: "get (without opt opts) k = (if k = opt then JUndefined else get opts k)"
  by (induction opts) (auto simp: without_def get_def)

lemma authorizationParams_without:
  assumes "(opt, key) \<in> set recognized" and "\<not> truthy (get opts opt)"
  shows "authorizationParams (without opt opts) = authorizationParams opts"
  using assms unfolding recognized_iff
  by (elim disjE conjE) (simp_all add: authorizationParams_list get_without)

text \<open>
  Claim C7. On \<^verbatim>\<open>{includeGrantedScopes: true, prompt: "consent"}\<close> the result is exactly
  \<^verbatim>\<open>{include_granted_scopes: true, prompt: "consent"}\<close>. For every options object the
  keys of the result are among the eight parameters, the result depends on nothing but
  the eight recognized options, and a parameter is present only if the options object
  holds its option.
\<close>

theorem authorizationParams_recognized_only:
  "authorizationParams [(''includeGrantedScopes'', JBool True), (''prompt'', JString ''consent'')] =
     [(''prompt'', JString ''consent''), (''include_granted_scopes'', JBool True)]
   \<and> map_of (authorizationParams
        [(''includeGrantedScopes'', JBool True), (''prompt'', JString ''consent'')]) =
       map_of [(''include_granted_scopes'', JBool True), (''prompt'', JString ''consent'')]
   \<and> fst ` set (authorizationParams opts) \<subseteq> snd ` set recognized
   \<and> ((\<forall>opt \<in> fst ` set recognized. get opts opt = get opts' opt) \<longrightarrow>
        authorizationParams opts = authorizationParams opts')
   \<and> (\<forall>(opt, key) \<in> set recognized.
        key \<in> fst ` set (authorizationParams opts) \<longrightarrow> opt \<in> fst ` set opts)"
proof (intro conjI)
  show e: "authorizationParams [(''includeGrantedScopes'', JBool True), (''prompt'', JString ''consent'')] =
     [(''prompt'', JString ''consent''), (''include_granted_scopes'', JBool True)]"
    by (simp add: authorizationParams_list get_def)
  show "map_of (authorizationParams
        [(''includeGrantedScopes'', JBool True), (''prompt'', JString ''consent'')]) =
       map_of [(''include_granted_scopes'', JBool True), (''prompt'', JString ''consent'')]"
    unfolding e by (rule ext) simp
  show "fst ` set (authorizationParams opts) \<subseteq> snd ` set recognized"
    by (rule param_keys)
  show "(\<forall>opt \<in> fst ` set recognized. get opts opt = get opts' opt) \<longrightarrow>
        authorizationParams opts = authorizationParams opts'"
    using authorizationParams_cong by blast
  show "\<forall>(opt, key) \<in> set recognized.
        key \<in> fst ` set (authorizationParams opts) \<longrightarrow> opt \<in> fst ` set opts"
    using param_only_if_supplied by blast
qed

theorem authorizationParams_recognized_only_witness:
  "authorizationParams [(''prompt'', JString ''consent''), (''state'', JString ''xyz'')] =
     authorizationParams [(''prompt'', JString ''consent'')]
   \<and> ''prompt'' \<in> fst ` set (authorizationParams
        [(''prompt'', JString ''consent''), (''state'', JString ''xyz'')])
   \<and> ''prompt'' \<in> fst ` set [(''prompt'', JString ''consent''), (''state'', JString ''xyz'')]
   \<and> authorizationParams [(''includeGrantedScopes'', JBool True), (''prompt'', JString ''consent'')] =
     [(''prompt'', JString ''consent''), (''include_granted_scopes'', JBool True)]"
proof -
  let ?opts = "[(''prompt'', JString ''consent''), (''state'', JString ''xyz'')]"
  let ?opts' = "[(''prompt'', JString ''consent'')]"
  have h: "\<forall>opt \<in> fst ` set recognized. get ?opts opt = get ?opts' opt"
    by (simp add: recognized_def get_def)
  have p: "(''prompt'', ''prompt'') \<in> set recognized"
    by (simp add: recognized_def)
  have k: "''prompt'' \<in> fst ` set (authorizationParams ?opts)"
    by (simp add: authorizationParams_list get_def)
  from authorizationParams_recognized_only [of ?opts ?opts'] h p k
  show ?thesis by blast
qed

text \<open>
  Claim C9. For every truthy value of \<^verbatim>\<open>includeGrantedScopes\<close> the result holds
  \<^verbatim>\<open>include_granted_scopes\<close> with the boolean \<^verbatim>\<open>true\<close>, not the supplied value.
\<close>

theorem includeGrantedScopes_literal_true:
  "truthy (get opts ''includeGrantedScopes'') \<Longrightarrow>
   map_of (authorizationParams opts) ''include_granted_scopes'' = Some (JBool True)"
  by (simp add: map_of_authorizationParams)

theorem includeGrantedScopes_literal_true_witness:
  "truthy (get [(''includeGrantedScopes'', JString ''no'')] ''includeGrantedScopes'')
   \<and> map_of (authorizationParams [(''includeGrantedScopes'', JString ''no'')])
        ''include_granted_scopes'' = Some (JBool True)
   \<and> truthy (get [(''includeGrantedScopes'', JNumber (Finite 1))] ''includeGrantedScopes'')
   \<and> map_of (authorizationParams [(''includeGrantedScopes'', JNumber (Finite 1))])
        ''include_granted_scopes'' = Some (JBool True)"
proof -
  have h1: "truthy (get [(''includeGrantedScopes'', JString ''no'')] ''includeGrantedScopes'')"
    by (simp add: get_def)
  have h2: "truthy (get [(''includeGrantedScopes'', JNumber (Finite 1))] ''includeGrantedScopes'')"
    by (simp add: get_def)
  show ?thesis
    using h1 h2 includeGrantedScopes_literal_true [OF h1] includeGrantedScopes_literal_true [OF h2]
    by simp
qed

text \<open>
  Claim C10. For every recognized option whose value is falsy, the result lacks the
  parameter of that option, and is the result for the options object without the option.
\<close>

theorem falsy_option_omitted:
  "(opt, key) \<in> set recognized \<Longrightarrow> \<not> truthy (get opts opt) \<Longrightarrow>
   key \<notin> fst ` set (authorizationParams opts)
   \<and> authorizationParams opts = authorizationParams (without opt opts)"
proof -
  assume r: "(opt, key) \<in> set recognized" and f: "\<not> truthy (get opts opt)"
  from param_of_option [OF r, of opts] f have "map_of (authorizationParams opts) key = None"
    by simp
  then have "key \<notin> fst ` set (authorizationParams opts)"
    by (simp add: map_of_eq_None_iff)
  with authorizationParams_without [OF r f] show ?thesis by simp
qed

theorem falsy_option_omitted_witness:
  "(''prompt'', ''prompt'') \<in> set recognized
   \<and> truthy (get [(''prompt'', JString []), (''accessType'', JNumber (Finite 0)),
                   (''display'', JString ''page'')] ''prompt'') = False
   \<and> ''prompt'' \<notin> fst ` set (authorizationParams
        [(''prompt'', JString []), (''accessType'', JNumber (Finite 0)),
         (''display'', JString ''page'')])
   \<and> (''accessType'', ''access_type'') \<in> set recognized
   \<and> truthy (get [(''prompt'', JString []), (''accessType'', JNumber (Finite 0)),
                   (''display'', JString ''page'')] ''accessType'') = False
   \<and> ''access_type'' \<notin> fst ` set (authorizationParams
        [(''prompt'', JString []), (''accessType'', JNumber (Finite 0)),
         (''display'', JString ''page'')])
   \<and> authorizationParams [(''prompt'', JString []), (''accessType'', JNumber (Finite 0)),
         (''display'', JString ''page'')] = [(''display'', JString ''page'')]"
proof -
  let ?opts = "[(''prompt'', JString []), (''accessType'', JNumber (Finite 0)),
                (''display'', JString ''page'')]"
  have r1: "(''prompt'', ''prompt'') \<in> set recognized"
    and r2: "(''accessType'', ''access_type'') \<in> set recognized"
    by (simp_all add: recognized_def)
  have f1: "\<not> truthy (get ?opts ''prompt'')" and f2: "\<not> truthy (get ?opts ''accessType'')"
    by (simp_all add: get_def)
  have v: "authorizationParams ?opts = [(''display'', JString ''page'')]"
    by (simp add: authorizationParams_list get_def)
  from r1 r2 f1 f2 v falsy_option_omitted [OF r1 f1] falsy_option_omitted [OF r2 f2]
  show ?thesis by simp
qed

section \<open>The profile format over the life of a strategy\<close>

lemma invoke_unchanged: "snd (invoke g self c) = self"
  by (cases c) (simp_all add: userProfile_def split: option.split)

lemma run_unchanged: "run g self calls = self"
  by (induction calls) (simp_all add: invoke_unchanged)

text \<open>
  The \<^verbatim>\<open>switch\<close> of lines 107 to 114, in any global scope: after any sequence of
  operations, a fetch whose body parses evaluates the parser named \<^verbatim>\<open>OpenIDProfile\<close>
  when the format that the constructor chose is \<^verbatim>\<open>'openid'\<close>, and the one named
  \<^verbatim>\<open>MolchPlusProfile\<close> otherwise.
\<close>

lemma switch_on_format:
  assumes "JSON_parse g body = Inr json"
  shows "fst (userProfile g (run g self calls) None body) =
         deliver body json
           (if this_userProfileFormat self = ''openid''
            then call_parse ''OpenIDProfile'' (OpenIDProfile g) json
            else call_parse ''MolchPlusProfile'' (MolchPlusProfile g) json)"
  using assms
  by (simp add: run_unchanged userProfile_def fetch_succeeded_def parse_profile_def)

lemma format_index_pl: "userProfileFormat_of ''/oauth2/userinfo/index.pl'' = ''molch''"
  by code_simp

text \<open>
  Claim C8. No sequence of later operations changes the format that the constructor
  chose from the path of the profile URL. A later fetch whose body parses applies no
  parser, though: the format selects the name \<^verbatim>\<open>OpenIDProfile\<close> when it is \<^verbatim>\<open>'openid'\<close>
  and \<^verbatim>\<open>MolchPlusProfile\<close> otherwise, the module declares neither, and the callback
  throws the ReferenceError for the selected name.
\<close>

theorem profile_format_fixed_no_parser:
  assumes "Strategy uri_parse opts = Inr self" and "JSON_parse (node wide) body = Inr json"
  shows "this_userProfileFormat (run (node wide) self calls) = this_userProfileFormat self
     \<and> (\<exists>pathname. uri_parse (this_userProfileURL self) = Some pathname
           \<and> this_userProfileFormat (run (node wide) self calls) = userProfileFormat_of pathname)
     \<and> fst (userProfile (node wide) (run (node wide) self calls) None body) =
         Thrown (ReferenceError
           (if this_userProfileFormat self = ''openid'' then ''OpenIDProfile is not defined''
            else ''MolchPlusProfile is not defined''))"
  using Strategy_format [OF assms(1)] fetch_succeeded_unbound [of "node wide" body json self] assms(2)
  by (simp add: run_unchanged userProfile_def node_def)

theorem profile_format_fixed_no_parser_witness:
  \<open>Strategy (map_of [(''https://auth.molch.at/oauth2/userinfo/index.pl'',
                        ''/oauth2/userinfo/index.pl'')])
      \<lparr>authorizationURL = None, tokenURL = None, userProfileURL = None\<rparr> =
     Inr (molch_strategy ''https://auth.molch.at/oauth2/userinfo/index.pl'' ''molch'')
   \<and> JSON_parse (node reject_wide) ''{"sub":"1234","name":"Ann"}'' =
       Inr (JObject [(''sub'', JString ''1234''), (''name'', JString ''Ann'')])
   \<and> this_userProfileFormat
        (run (node reject_wide)
           (molch_strategy ''https://auth.molch.at/oauth2/userinfo/index.pl'' ''molch'')
           [AuthorizationParams [(''prompt'', JString ''consent'')], UserProfile None ''<html>'']) =
       ''molch''
   \<and> fst (userProfile (node reject_wide)
        (run (node reject_wide)
           (molch_strategy ''https://auth.molch.at/oauth2/userinfo/index.pl'' ''molch'')
           [AuthorizationParams [(''prompt'', JString ''consent'')], UserProfile None ''<html>''])
        None ''{"sub":"1234","name":"Ann"}'') =
       Thrown (ReferenceError ''MolchPlusProfile is not defined'')\<close>
proof -
  let ?self = "molch_strategy ''https://auth.molch.at/oauth2/userinfo/index.pl'' ''molch''"
  have c: "Strategy (map_of [(''https://auth.molch.at/oauth2/userinfo/index.pl'',
                        ''/oauth2/userinfo/index.pl'')])
      \<lparr>authorizationURL = None, tokenURL = None, userProfileURL = None\<rparr> = Inr ?self"
    by (simp add: Strategy_def or_default_def molch_strategy_def format_index_pl)
  have p: \<open>JSON_parse (node reject_wide) ''{"sub":"1234","name":"Ann"}'' =
       Inr (JObject [(''sub'', JString ''1234''), (''name'', JString ''Ann'')])\<close>
    by (simp add: node_def json_parse_def json_read_claims)
  from c p profile_format_fixed_no_parser [OF c p,
      of "[AuthorizationParams [(''prompt'', JString ''consent'')], UserProfile None ''<html>'']"]
  show ?thesis
    by (simp add: molch_strategy_def)
qed

end
